theory Spec2Isabelle
  imports Main
begin

section \<open>Python values, exceptions and the dictionary store\<close>

text \<open>
  The embedding follows \<^verbatim>\<open>deepspeed/runtime/compiler.py\<close>. Python objects that the
  file only passes around are opaque identities; dictionaries are mutable objects, so
  they live in a store and are referred to by address.
\<close>

type_synonym addr = nat

datatype pyval =
    PyNone
  | PyBool bool
  | PyInt int
  | PyStr string
  | PyCallable nat
  | PyObject nat
  | PyDict addr
  | PyMethod string

type_synonym dict = "string \<rightharpoonup> pyval"

datatype pyexc =
    ValueError string
  | ImportError string
  | ModuleNotFoundError string
  | AttributeError string
  | AssertionError string
  | TypeError string
  | RuntimeError string

text \<open>\<^verbatim>\<open>except ImportError\<close> catches the class and its subclass \<^verbatim>\<open>ModuleNotFoundError\<close>.\<close>

fun is_ImportError :: "pyexc \<Rightarrow> bool" where
  "is_ImportError (ImportError _) = True"
| "is_ImportError (ModuleNotFoundError _) = True"
| "is_ImportError _ = False"

text \<open>
  \<^verbatim>\<open>isinstance(x, str)\<close> and \<^verbatim>\<open>callable(x)\<close>: functions, callable objects and bound
  methods are callable.
\<close>

fun isinstance_str :: "pyval \<Rightarrow> bool" where
  "isinstance_str (PyStr _) = True"
| "isinstance_str _ = False"

fun callable :: "pyval \<Rightarrow> bool" where
  "callable (PyCallable _) = True"
| "callable (PyMethod _) = True"
| "callable _ = False"

record pyheap =
  cells :: "addr \<Rightarrow> dict"
  next_addr :: addr

definition new_dict :: "dict \<Rightarrow> pyheap \<Rightarrow> addr \<times> pyheap" where
  "new_dict d hp =
     (next_addr hp, hp\<lparr>cells := (cells hp)(next_addr hp := d), next_addr := Suc (next_addr hp)\<rparr>)"

text \<open>\<^verbatim>\<open>del d[key]\<close> for a key that is present, and \<^verbatim>\<open>d.update(other)\<close>, both in place.\<close>

definition dict_del :: "addr \<Rightarrow> string \<Rightarrow> pyheap \<Rightarrow> pyheap" where
  "dict_del a key hp = hp\<lparr>cells := (cells hp)(a := (cells hp a)(key := None))\<rparr>"

definition dict_update :: "addr \<Rightarrow> addr \<Rightarrow> pyheap \<Rightarrow> pyheap" where
  "dict_update a other hp = hp\<lparr>cells := (cells hp)(a := cells hp a ++ cells hp other)\<rparr>"

section \<open>The host environment\<close>

text \<open>
  Everything the file calls but does not define: \<^verbatim>\<open>torch\<close>, \<^verbatim>\<open>importlib\<close>, the builtins
  \<^verbatim>\<open>getattr\<close> and \<^verbatim>\<open>str\<close>, calling an object, the attributes every \<^verbatim>\<open>torch.nn.Module\<close>
  instance has, and the base class \<^verbatim>\<open>DeepSpeedConfigModel\<close>. Each is a parameter.
\<close>

record host =
  has_torch_compile :: bool
  list_backends :: "string list"
  import_module :: "string \<Rightarrow> pyexc + pyval"
  getattr :: "pyval \<Rightarrow> string \<Rightarrow> pyexc + pyval"
  torch_compile :: "pyval \<Rightarrow> pyval \<Rightarrow> dict \<Rightarrow> pyexc + pyval"
  call :: "pyval \<Rightarrow> pyval list \<Rightarrow> dict \<Rightarrow> pyexc + pyval"
  str :: "pyval \<Rightarrow> string"
  nn_module_attr :: "string \<rightharpoonup> pyval"
  validate_all :: bool

section \<open>Module-level functions\<close>

definition COMPILE_CONFIG :: string where
  "COMPILE_CONFIG = ''compile''"

definition is_compile_supported :: "host \<Rightarrow> bool" where
  "is_compile_supported h = has_torch_compile h"

text \<open>\<^verbatim>\<open>s.split(sep)\<close> for a one-character separator, and \<^verbatim>\<open>sep.join(parts)\<close>.\<close>

fun split :: "char \<Rightarrow> string \<Rightarrow> string list" where
  "split sep [] = [[]]"
| "split sep (c # cs) =
     (if c = sep then [] # split sep cs
      else (c # hd (split sep cs)) # tl (split sep cs))"

fun join :: "string \<Rightarrow> string list \<Rightarrow> string" where
  "join sep [] = []"
| "join sep [p] = p"
| "join sep (p # q # ps) = p @ sep @ join sep (q # ps)"

definition module_name_of :: "string \<Rightarrow> string" where
  "module_name_of backend_name = join ''.'' (butlast (split (CHR ''.'') backend_name))"

definition fn_name_of :: "string \<Rightarrow> string" where
  "fn_name_of backend_name = last (split (CHR ''.'') backend_name)"

definition import_failure :: "string \<Rightarrow> pyexc" where
  "import_failure module_name =
     ValueError (''Could not import module '' @ module_name @ '' for torch.compile backend.'')"

text \<open>
  \<^verbatim>\<open>get_backend_fn\<close>: the \<^verbatim>\<open>try\<close> block covers the import and the attribute read; only an
  \<^verbatim>\<open>ImportError\<close> is caught, any other exception leaves the function as it is.
\<close>

definition get_backend_fn :: "host \<Rightarrow> string \<Rightarrow> pyexc + pyval" where
  "get_backend_fn h backend_name =
     (let module_name = module_name_of backend_name;
          fn_name = fn_name_of backend_name
      in case import_module h module_name of
           Inl e \<Rightarrow> if is_ImportError e then Inl (import_failure module_name) else Inl e
         | Inr module \<Rightarrow>
             (case getattr h module fn_name of
                Inl e \<Rightarrow> if is_ImportError e then Inl (import_failure module_name) else Inl e
              | Inr backend_fn \<Rightarrow> Inr backend_fn))"

section \<open>CompileConfig\<close>

record CompileConfig =
  enabled :: bool
  backend :: pyval
  kwargs :: addr

definition unsupported_msg :: string where
  "unsupported_msg = ''torch.compile is not supported on this version of PyTorch.''"

definition invalid_backend :: "host \<Rightarrow> pyval \<Rightarrow> pyexc" where
  "invalid_backend h v =
     ValueError (''backend for torch.compile must be a string or Callable: '' @ str h v)"

definition validate_enabled :: "host \<Rightarrow> bool \<Rightarrow> pyexc + bool" where
  "validate_enabled h field_value =
     (if field_value \<and> \<not> is_compile_supported h then Inl (ValueError unsupported_msg)
      else Inr field_value)"

definition validate_backend :: "host \<Rightarrow> pyval \<Rightarrow> pyexc + pyval" where
  "validate_backend h field_value =
     (if is_compile_supported h then
        (case field_value of
           PyStr s \<Rightarrow>
             if s \<notin> set (list_backends h) then get_backend_fn h s else Inr field_value
         | _ \<Rightarrow>
             if \<not> callable field_value then Inl (invalid_backend h field_value)
             else Inr field_value)
      else Inr field_value)"

text \<open>
  The keyword arguments of \<^verbatim>\<open>CompileConfig(**compile_config_dict)\<close>: each declared field
  is present or absent.
\<close>

record compile_config_dict =
  arg_enabled :: "bool option"
  arg_backend :: "pyval option"
  arg_kwargs :: "dict option"

definition empty_config_dict :: compile_config_dict where
  "empty_config_dict = \<lparr>arg_enabled = None, arg_backend = None, arg_kwargs = None\<rparr>"

text \<open>
  Modelled from the spec: the constructor of the base class \<^verbatim>\<open>DeepSpeedConfigModel\<close>
  (\<^verbatim>\<open>config_utils.py\<close>, not part of the sources at hand). A field that is supplied goes
  through its validator; a field that is absent takes its declared default, which goes
  through the validator as well when the base class asks for it (\<open>validate_all\<close>).
  Fields are treated in declaration order and the first error ends the construction.
  The options mapping of the new object is a dictionary of its own.
\<close>

definition field_value :: "host \<Rightarrow> 'a \<Rightarrow> ('a \<Rightarrow> pyexc + 'a) \<Rightarrow> 'a option \<Rightarrow> pyexc + 'a" where
  "field_value h dflt validator arg =
     (case arg of
        Some v \<Rightarrow> validator v
      | None \<Rightarrow> if validate_all h then validator dflt else Inr dflt)"

definition CompileConfig_init ::
  "host \<Rightarrow> pyheap \<Rightarrow> compile_config_dict \<Rightarrow> pyexc + (CompileConfig \<times> pyheap)" where
  "CompileConfig_init h hp d =
     (case field_value h False (validate_enabled h) (arg_enabled d) of
        Inl e \<Rightarrow> Inl e
      | Inr en \<Rightarrow>
          (case field_value h (PyStr ''inductor'') (validate_backend h) (arg_backend d) of
             Inl e \<Rightarrow> Inl e
           | Inr b \<Rightarrow>
               (let (a, hp') = new_dict (case arg_kwargs d of None \<Rightarrow> Map.empty | Some kw \<Rightarrow> kw) hp
                in Inr (\<lparr>enabled = en, backend = b, kwargs = a\<rparr>, hp'))))"

definition get_compile_config ::
  "host \<Rightarrow> pyheap \<Rightarrow> (string \<rightharpoonup> compile_config_dict) \<Rightarrow> pyexc + (CompileConfig \<times> pyheap)" where
  "get_compile_config h hp param_dict =
     (let compile_config_dict =
            (case param_dict COMPILE_CONFIG of
               Some d \<Rightarrow> d
             | None \<Rightarrow> empty_config_dict)
      in CompileConfig_init h hp compile_config_dict)"

section \<open>CompiledModuleWrapper\<close>

text \<open>
  The instance state. \<open>wrapped\<close> is \<^verbatim>\<open>self.__dict__['wrapped']\<close>, \<open>p_modules\<close> is the
  submodule registry \<^verbatim>\<open>_modules\<close> of \<^verbatim>\<open>torch.nn.Module\<close>, and a field \<open>p_x\<close> is the private
  attribute \<^verbatim>\<open>_x\<close>.
\<close>

record CompiledModuleWrapper =
  wrapped :: pyval
  p_modules :: "string \<rightharpoonup> pyval"
  p_is_compiled :: bool
  p_backend :: pyval
  p_compile_kwargs :: addr
  p_compiler_fn :: "nat option"

definition CompiledModuleWrapper_init ::
  "host \<Rightarrow> pyval \<Rightarrow> CompileConfig option \<Rightarrow> pyexc + CompiledModuleWrapper" where
  "CompiledModuleWrapper_init h module compile_config =
     (if \<not> is_compile_supported h then Inl (AssertionError unsupported_msg)
      else case compile_config of
             None \<Rightarrow> Inl (AttributeError ''NoneType object has no attribute backend'')
           | Some cfg \<Rightarrow>
               Inr \<lparr>wrapped = module,
                    p_modules = [''wrapped'' \<mapsto> module],
                    p_is_compiled = False,
                    p_backend = backend cfg,
                    p_compile_kwargs = kwargs cfg,
                    p_compiler_fn = None\<rparr>)"

text \<open>The read-only properties.\<close>

definition is_compiled :: "CompiledModuleWrapper \<Rightarrow> bool" where
  "is_compiled w = p_is_compiled w"

definition backend_prop :: "CompiledModuleWrapper \<Rightarrow> pyval" where
  "backend_prop w = p_backend w"

definition torch_compile_kwargs :: "CompiledModuleWrapper \<Rightarrow> addr" where
  "torch_compile_kwargs w = p_compile_kwargs w"

definition compiler_fn :: "CompiledModuleWrapper \<Rightarrow> nat option" where
  "compiler_fn w = p_compiler_fn w"

definition set_backend ::
  "host \<Rightarrow> CompiledModuleWrapper \<Rightarrow> pyval \<Rightarrow> pyexc + CompiledModuleWrapper" where
  "set_backend h w v =
     (case v of
        PyStr s \<Rightarrow>
          (case get_backend_fn h s of
             Inl e \<Rightarrow> Inl e
           | Inr fn \<Rightarrow> Inr (w\<lparr>p_backend := fn\<rparr>))
      | _ \<Rightarrow>
          if callable v then Inr (w\<lparr>p_backend := v\<rparr>)
          else Inl (invalid_backend h v))"

text \<open>
  \<^verbatim>\<open>set_torch_compile_kwargs\<close> receives the caller's dictionary by reference. An exception
  of \<^verbatim>\<open>set_backend\<close> leaves before anything has been written.
\<close>

definition set_torch_compile_kwargs ::
  "host \<Rightarrow> pyheap \<Rightarrow> CompiledModuleWrapper \<Rightarrow> addr \<Rightarrow> pyexc + (CompiledModuleWrapper \<times> pyheap)" where
  "set_torch_compile_kwargs h hp w kw =
     (case cells hp kw ''backend'' of
        Some b \<Rightarrow>
          (case set_backend h w b of
             Inl e \<Rightarrow> Inl e
           | Inr w' \<Rightarrow>
               Inr (w', dict_update (p_compile_kwargs w') kw (dict_del kw ''backend'' hp)))
      | None \<Rightarrow> Inr (w, dict_update (p_compile_kwargs w) kw hp))"

definition set_compiler_fn :: "CompiledModuleWrapper \<Rightarrow> nat \<Rightarrow> CompiledModuleWrapper" where
  "set_compiler_fn w fn = w\<lparr>p_compiler_fn := Some fn\<rparr>"

text \<open>
  What a run of the wrapper does to the outside world, in order: a call of the host
  compilation engine (module, backend, options), a call of the custom compiler function
  (function, module), and an invocation of the wrapped object (object, positional
  arguments, keyword arguments).
\<close>

datatype event =
    EvTorchCompile pyval pyval dict
  | EvCompilerFn nat pyval
  | EvInvoke pyval "pyval list" dict

fun is_compile_event :: "event \<Rightarrow> bool" where
  "is_compile_event (EvTorchCompile _ _ _) = True"
| "is_compile_event (EvCompilerFn _ _) = True"
| "is_compile_event (EvInvoke _ _ _) = False"

fun is_torch_compile_event :: "event \<Rightarrow> bool" where
  "is_torch_compile_event (EvTorchCompile _ _ _) = True"
| "is_torch_compile_event _ = False"


text \<open>
  The two right-hand sides of the assignment to \<^verbatim>\<open>self.__dict__['wrapped']\<close> in
  \<^verbatim>\<open>forward\<close>. The call \<^verbatim>\<open>torch.compile(self.wrapped, backend=self._backend, **self._compile_kwargs)\<close>
  needs the attribute \<^verbatim>\<open>torch.compile\<close>, and Python rejects it before entering the
  function when the stored options repeat the keyword \<^verbatim>\<open>backend\<close>.
\<close>

definition compile_wrapped ::
  "host \<Rightarrow> pyheap \<Rightarrow> CompiledModuleWrapper \<Rightarrow> event list \<times> (pyexc + pyval)" where
  "compile_wrapped h hp w =
     (case p_compiler_fn w of
        None \<Rightarrow>
          (let kw = cells hp (p_compile_kwargs w)
           in if \<not> has_torch_compile h then
                ([], Inl (AttributeError ''module torch has no attribute compile''))
              else if kw ''backend'' \<noteq> None then
                ([], Inl (TypeError ''got multiple values for keyword argument backend''))
              else
                ([EvTorchCompile (wrapped w) (p_backend w) kw],
                 torch_compile h (wrapped w) (p_backend w) kw))
      | Some fn \<Rightarrow>
          ([EvCompilerFn fn (wrapped w)], call h (PyCallable fn) [wrapped w] Map.empty))"

text \<open>
  \<^verbatim>\<open>forward\<close> returns the wrapper's state after the call, the events of the call and its
  outcome. An exception of the compilation step leaves before the state is written; an
  exception of the wrapped object leaves after it.
\<close>

definition forward ::
  "host \<Rightarrow> pyheap \<Rightarrow> CompiledModuleWrapper \<Rightarrow> pyval list \<Rightarrow> dict \<Rightarrow>
     CompiledModuleWrapper \<times> event list \<times> (pyexc + pyval)" where
  "forward h hp w args kws =
     (if \<not> is_compiled w then
        (case compile_wrapped h hp w of
           (evs, Inl e) \<Rightarrow> (w, evs, Inl e)
         | (evs, Inr m) \<Rightarrow>
             (let w' = w\<lparr>wrapped := m, p_is_compiled := True\<rparr>
              in (w', evs @ [EvInvoke (wrapped w') args kws],
                  call h (wrapped w') args kws)))
      else (w, [EvInvoke (wrapped w) args kws], call h (wrapped w) args kws))"

text \<open>A sequence of calls, the state of each call being the state the previous one left.\<close>

fun forward_calls ::
  "host \<Rightarrow> pyheap \<Rightarrow> CompiledModuleWrapper \<Rightarrow> (pyval list \<times> dict) list \<Rightarrow>
     (CompiledModuleWrapper \<times> event list \<times> (pyexc + pyval)) list" where
  "forward_calls h hp w [] = []"
| "forward_calls h hp w (c # cs) =
     (let r = forward h hp w (fst c) (snd c) in r # forward_calls h hp (fst r) cs)"


subsection \<open>Attribute access\<close>

text \<open>The method \<^verbatim>\<open>__getattr__\<close> of the class.\<close>

definition CompiledModuleWrapper_getattr ::
  "host \<Rightarrow> CompiledModuleWrapper \<Rightarrow> string \<Rightarrow> pyexc + pyval" where
  "CompiledModuleWrapper_getattr h w name = getattr h (wrapped w) name"

definition method_names :: "string list" where
  "method_names =
     [''__init__'', ''__getattr__'', ''set_backend'', ''set_torch_compile_kwargs'',
      ''set_compiler_fn'', ''forward'']"

text \<open>
  What the normal lookup finds on the wrapper itself: the instance attributes that
  \<^verbatim>\<open>__init__\<close> writes, the properties and methods of the class, and whatever
  \<^verbatim>\<open>torch.nn.Module\<close> gives every instance (the registry \<^verbatim>\<open>_modules\<close> among them).
\<close>

definition own_attr :: "host \<Rightarrow> CompiledModuleWrapper \<Rightarrow> string \<rightharpoonup> pyval" where
  "own_attr h w name =
     (if name = ''wrapped'' then Some (wrapped w)
      else if name = ''_is_compiled'' \<or> name = ''is_compiled'' then Some (PyBool (p_is_compiled w))
      else if name = ''_backend'' \<or> name = ''backend'' then Some (p_backend w)
      else if name = ''_compile_kwargs'' \<or> name = ''torch_compile_kwargs'' then
        Some (PyDict (p_compile_kwargs w))
      else if name = ''_compiler_fn'' \<or> name = ''compiler_fn'' then
        Some (case p_compiler_fn w of None \<Rightarrow> PyNone | Some fn \<Rightarrow> PyCallable fn)
      else if name \<in> set method_names then Some (PyMethod name)
      else nn_module_attr h name)"

text \<open>
  Python's attribute access on the wrapper: \<^verbatim>\<open>__getattr__\<close> is asked only for a name the
  normal lookup does not find.
\<close>

definition wrapper_getattr ::
  "host \<Rightarrow> CompiledModuleWrapper \<Rightarrow> string \<Rightarrow> pyexc + pyval" where
  "wrapper_getattr h w name =
     (case own_attr h w name of
        Some v \<Rightarrow> Inr v
      | None \<Rightarrow> CompiledModuleWrapper_getattr h w name)"

section \<open>Concrete hosts and states\<close>

text \<open>
  A host with \<^verbatim>\<open>torch.compile\<close>, one importable module \<^verbatim>\<open>pkg.mod\<close> that defines the
  callable \<^verbatim>\<open>fn\<close> and the number \<^verbatim>\<open>version\<close>, an \<^verbatim>\<open>importlib\<close> that refuses the empty
  module name with a \<^verbatim>\<open>ValueError\<close> and finds no other module,
  a compilation engine that returns the callable 2 and a custom compiler (the callable 9)
  that returns the callable 3; any other callable returns the number of its positional
  arguments. \<open>old_host\<close> is the same host without \<^verbatim>\<open>torch.compile\<close>, and on \<open>failing_host\<close>
  the compilation engine raises.
\<close>

definition demo_host :: host where
  "demo_host =
     \<lparr>has_torch_compile = True,
      list_backends = [''inductor''],
      import_module =
        (\<lambda>n. if n = ''pkg.mod'' then Inr (PyObject 0)
             else if n = [] then Inl (ValueError ''Empty module name'')
             else Inl (ModuleNotFoundError n)),
      getattr =
        (\<lambda>v n. if v = PyObject 0 \<and> n = ''fn'' then Inr (PyCallable 7)
               else if v = PyObject 0 \<and> n = ''version'' then Inr (PyInt 2)
               else if v = PyCallable 1 \<and> n = ''weight'' then Inr (PyInt 10)
               else if v = PyCallable 2 \<and> n = ''weight'' then Inr (PyInt 20)
               else Inl (AttributeError n)),
      torch_compile = (\<lambda>m b kw. Inr (PyCallable 2)),
      call =
        (\<lambda>f args kw. if f = PyCallable 9 then Inr (PyCallable 3)
                     else if callable f then Inr (PyInt (int (length args)))
                     else Inl (TypeError ''object is not callable'')),
      str = (\<lambda>v. ''object''),
      nn_module_attr = [''training'' \<mapsto> PyBool True],
      validate_all = True\<rparr>"

definition old_host :: host where
  "old_host = demo_host\<lparr>has_torch_compile := False\<rparr>"

definition failing_host :: host where
  "failing_host = demo_host\<lparr>torch_compile := (\<lambda>m b kw. Inl (RuntimeError ''compilation failed''))\<rparr>"

text \<open>
  A store with the stored options at address 0 and a caller's dictionary
  \<^verbatim>\<open>{"backend": "pkg.mod.fn", "foo": 1}\<close> at address 1, and a wrapper that has not been
  called yet.
\<close>

definition demo_heap :: pyheap where
  "demo_heap =
     \<lparr>cells =
        (\<lambda>a. if a = 0 then [''mode'' \<mapsto> PyStr ''max-autotune'']
             else if a = 1 then [''backend'' \<mapsto> PyStr ''pkg.mod.fn'', ''foo'' \<mapsto> PyInt 1]
             else Map.empty),
      next_addr = 2\<rparr>"

definition demo_config :: CompileConfig where
  "demo_config = \<lparr>enabled = True, backend = PyStr ''inductor'', kwargs = 0\<rparr>"

definition demo_wrapper :: CompiledModuleWrapper where
  "demo_wrapper =
     \<lparr>wrapped = PyCallable 1,
      p_modules = [''wrapped'' \<mapsto> PyCallable 1],
      p_is_compiled = False,
      p_backend = PyStr ''inductor'',
      p_compile_kwargs = 0,
      p_compiler_fn = None\<rparr>"

text \<open>
  Three more stores. In \<open>example_heap\<close> the caller's dictionary at address 1 is
  \<^verbatim>\<open>{"backend": "x", "foo": 1}\<close>; in \<open>refusing_heap\<close> it is \<^verbatim>\<open>{"backend": 5, "foo": 2}\<close>;
  in \<open>aliased_heap\<close> the stored options at address 0 hold a \<^verbatim>\<open>"backend"\<close> key themselves.
\<close>

definition example_heap :: pyheap where
  "example_heap =
     \<lparr>cells =
        (\<lambda>a. if a = 0 then [''mode'' \<mapsto> PyStr ''max-autotune'']
             else if a = 1 then [''backend'' \<mapsto> PyStr ''x'', ''foo'' \<mapsto> PyInt 1]
             else Map.empty),
      next_addr = 2\<rparr>"

definition refusing_heap :: pyheap where
  "refusing_heap =
     \<lparr>cells =
        (\<lambda>a. if a = 0 then [''mode'' \<mapsto> PyStr ''max-autotune'']
             else if a = 1 then [''backend'' \<mapsto> PyInt 5, ''foo'' \<mapsto> PyInt 2]
             else Map.empty),
      next_addr = 2\<rparr>"

definition aliased_heap :: pyheap where
  "aliased_heap =
     \<lparr>cells =
        (\<lambda>a. if a = 0 then [''backend'' \<mapsto> PyCallable 7, ''mode'' \<mapsto> PyStr ''max-autotune'']
             else Map.empty),
      next_addr = 1\<rparr>"

section \<open>Splitting a dotted path\<close>







section \<open>The backend resolver\<close>



section \<open>Configuration\<close>

text \<open>
  Claim C5. On a host without \<^verbatim>\<open>torch.compile\<close>, every configuration with
  \<open>enabled = true\<close> is refused when it is validated: the validator raises the
  unsupported-feature error, so the construction of the settings and
  \<^verbatim>\<open>get_compile_config\<close> fail with it; no default is put in its place.
\<close>

theorem enabled_unsupported_fails:
  assumes "\<not> is_compile_supported h"
    and "arg_enabled d = Some True"
    and "param_dict COMPILE_CONFIG = Some d"
  shows "validate_enabled h True = Inl (ValueError ''torch.compile is not supported on this version of PyTorch.'')
     \<and> CompileConfig_init h hp d = Inl (ValueError ''torch.compile is not supported on this version of PyTorch.'')
     \<and> get_compile_config h hp param_dict = Inl (ValueError ''torch.compile is not supported on this version of PyTorch.'')"
  using assms
  by (simp add: validate_enabled_def CompileConfig_init_def get_compile_config_def
      field_value_def unsupported_msg_def)

theorem enabled_unsupported_fails_witness:
  "\<not> is_compile_supported old_host
   \<and> get_compile_config old_host demo_heap
        [''compile'' \<mapsto> \<lparr>arg_enabled = Some True, arg_backend = None, arg_kwargs = None\<rparr>]
       = Inl (ValueError ''torch.compile is not supported on this version of PyTorch.'')"
proof -
  have a: "\<not> is_compile_supported old_host"
    by (simp add: is_compile_supported_def old_host_def demo_host_def)
  have b: "arg_enabled \<lparr>arg_enabled = Some True, arg_backend = None, arg_kwargs = None\<rparr> = Some True"
    by simp
  have c: "[''compile'' \<mapsto> \<lparr>arg_enabled = Some True, arg_backend = None, arg_kwargs = None\<rparr>]
             COMPILE_CONFIG
           = Some \<lparr>arg_enabled = Some True, arg_backend = None, arg_kwargs = None\<rparr>"
    by (simp add: COMPILE_CONFIG_def)
  from enabled_unsupported_fails
      [where h = old_host and hp = demo_heap
         and d = "\<lparr>arg_enabled = Some True, arg_backend = None, arg_kwargs = None\<rparr>"
         and param_dict = "[''compile'' \<mapsto> \<lparr>arg_enabled = Some True, arg_backend = None, arg_kwargs = None\<rparr>]"]
    a b c
  show ?thesis by simp
qed

text \<open>
  Claim C6. For every configuration mapping without the key \<^verbatim>\<open>"compile"\<close>,
  \<^verbatim>\<open>get_compile_config\<close> returns the defaults: \<open>enabled = false\<close>,
  \<open>backend = "inductor"\<close> and an empty options mapping. Where the base class also
  validates defaults on a host with \<^verbatim>\<open>torch.compile\<close>, the default backend name passes
  the validator unchanged because the host registers it.
\<close>

theorem default_config:
  assumes "param_dict COMPILE_CONFIG = None"
    and "validate_all h \<longrightarrow> is_compile_supported h \<longrightarrow> ''inductor'' \<in> set (list_backends h)"
  shows "case get_compile_config h hp param_dict of
           Inl e \<Rightarrow> False
         | Inr (cfg, hp') \<Rightarrow>
             enabled cfg = False \<and> backend cfg = PyStr ''inductor''
             \<and> cells hp' (kwargs cfg) = Map.empty"
  using assms
  by (auto simp: get_compile_config_def CompileConfig_init_def field_value_def
      validate_enabled_def validate_backend_def empty_config_dict_def new_dict_def)

theorem default_config_witness:
  "get_compile_config demo_host demo_heap Map.empty
     = Inr (\<lparr>enabled = False, backend = PyStr ''inductor'', kwargs = 2\<rparr>,
            demo_heap\<lparr>cells := (cells demo_heap)(2 := Map.empty), next_addr := 3\<rparr>)"
proof -
  have a: "(Map.empty :: string \<rightharpoonup> compile_config_dict) COMPILE_CONFIG = None" by simp
  have b: "validate_all demo_host \<longrightarrow> is_compile_supported demo_host \<longrightarrow>
             ''inductor'' \<in> set (list_backends demo_host)"
    by (simp add: demo_host_def)
  from default_config [where h = demo_host and hp = demo_heap and param_dict = Map.empty] a b
  show ?thesis
    by (simp add: get_compile_config_def CompileConfig_init_def field_value_def
      validate_enabled_def validate_backend_def empty_config_dict_def new_dict_def demo_host_def demo_heap_def is_compile_supported_def)
qed

section \<open>Construction of the wrapper\<close>

text \<open>
  Claim C10. Constructing the wrapper without a configuration always fails: on a host
  with \<^verbatim>\<open>torch.compile\<close> the read of \<^verbatim>\<open>compile_config.backend\<close> raises, on any other host
  the assertion does. So a construction that succeeds had a configuration.
\<close>

theorem init_without_config_fails:
  "(is_compile_supported h \<longrightarrow>
      CompiledModuleWrapper_init h module None
        = Inl (AttributeError ''NoneType object has no attribute backend''))
   \<and> (\<not> is_compile_supported h \<longrightarrow>
      CompiledModuleWrapper_init h module None
        = Inl (AssertionError ''torch.compile is not supported on this version of PyTorch.''))
   \<and> (CompiledModuleWrapper_init h module compile_config = Inr w \<longrightarrow> compile_config \<noteq> None)"
  by (auto simp: CompiledModuleWrapper_init_def unsupported_msg_def split: option.splits)

theorem init_without_config_fails_witness:
  "is_compile_supported demo_host
   \<and> CompiledModuleWrapper_init demo_host (PyCallable 1) None
       = Inl (AttributeError ''NoneType object has no attribute backend'')
   \<and> \<not> is_compile_supported old_host
   \<and> CompiledModuleWrapper_init old_host (PyCallable 1) None
       = Inl (AssertionError ''torch.compile is not supported on this version of PyTorch.'')
   \<and> CompiledModuleWrapper_init demo_host (PyCallable 1) (Some demo_config) = Inr demo_wrapper
   \<and> Some demo_config \<noteq> None"
proof -
  have a: "is_compile_supported demo_host"
    by (simp add: is_compile_supported_def demo_host_def)
  have b: "\<not> is_compile_supported old_host"
    by (simp add: is_compile_supported_def old_host_def demo_host_def)
  have c: "CompiledModuleWrapper_init demo_host (PyCallable 1) (Some demo_config) = Inr demo_wrapper"
    by (simp add: CompiledModuleWrapper_init_def a demo_config_def demo_wrapper_def)
  from init_without_config_fails [of demo_host "PyCallable 1" "Some demo_config" demo_wrapper]
    init_without_config_fails [of old_host "PyCallable 1" None demo_wrapper] a b c
  show ?thesis by simp
qed

section \<open>Setting the backend\<close>

text \<open>
  On a host without \<^verbatim>\<open>torch.compile\<close> the validator of the backend field checks
  nothing: the number 5, neither a string nor a callable, is returned as it came.
\<close>

theorem validate_backend_unchecked_counterexample:
  "\<not> isinstance_str (PyInt 5) \<and> \<not> callable (PyInt 5)
   \<and> validate_backend old_host (PyInt 5) = Inr (PyInt 5)"
  by (simp add: validate_backend_def is_compile_supported_def old_host_def demo_host_def)

text \<open>
  Claim C7, as amended. For every backend value that is neither a string nor a callable,
  \<^verbatim>\<open>set_backend\<close> fails with the invalid-backend error, and the validator of the
  configuration fails with it on a host that has \<^verbatim>\<open>torch.compile\<close>. For a string,
  \<^verbatim>\<open>set_backend\<close> stores what the backend resolver returns (or fails as the resolver
  does); a callable is stored directly.
\<close>

theorem invalid_backend_rejected:
  "(\<not> isinstance_str v \<and> \<not> callable v \<longrightarrow>
      (is_compile_supported h \<longrightarrow>
         validate_backend h v
           = Inl (ValueError (''backend for torch.compile must be a string or Callable: '' @ str h v)))
      \<and> set_backend h w v
           = Inl (ValueError (''backend for torch.compile must be a string or Callable: '' @ str h v)))
   \<and> set_backend h w (PyStr s)
        = (case get_backend_fn h s of Inl e \<Rightarrow> Inl e | Inr fn \<Rightarrow> Inr (w\<lparr>p_backend := fn\<rparr>))
   \<and> (callable c \<longrightarrow> set_backend h w c = Inr (w\<lparr>p_backend := c\<rparr>))"
  by (cases v; cases c) (simp_all add: validate_backend_def set_backend_def invalid_backend_def)

theorem invalid_backend_rejected_witness:
  "validate_backend demo_host (PyInt 5)
     = Inl (ValueError ''backend for torch.compile must be a string or Callable: object'')
   \<and> set_backend old_host demo_wrapper (PyInt 5)
     = Inl (ValueError ''backend for torch.compile must be a string or Callable: object'')
   \<and> set_backend old_host demo_wrapper (PyStr ''pkg.mod.fn'')
     = Inr (demo_wrapper\<lparr>p_backend := PyCallable 7\<rparr>)
   \<and> set_backend old_host demo_wrapper (PyCallable 4)
     = Inr (demo_wrapper\<lparr>p_backend := PyCallable 4\<rparr>)"
proof -
  have a: "\<not> isinstance_str (PyInt 5) \<and> \<not> callable (PyInt 5)" by simp
  have b: "is_compile_supported demo_host"
    by (simp add: is_compile_supported_def demo_host_def)
  have c: "callable (PyCallable 4)" by simp
  have m: "module_name_of ''pkg.mod.fn'' = ''pkg.mod''" "fn_name_of ''pkg.mod.fn'' = ''fn''"
    by (simp_all add: module_name_of_def fn_name_of_def)
  have d: "get_backend_fn old_host ''pkg.mod.fn'' = Inr (PyCallable 7)"
    by (simp add: get_backend_fn_def m old_host_def demo_host_def)
  have e: "str demo_host (PyInt 5) = ''object''" "str old_host (PyInt 5) = ''object''"
    by (simp_all add: old_host_def demo_host_def)
  from invalid_backend_rejected [of "PyInt 5" demo_host demo_wrapper "''pkg.mod.fn''" "PyCallable 4"]
    invalid_backend_rejected [of "PyInt 5" old_host demo_wrapper "''pkg.mod.fn''" "PyCallable 4"]
    a b c d e
  show ?thesis by simp
qed

section \<open>Calling the wrapper\<close>


lemma forward_compile_raises:
  "\<not> is_compiled w \<Longrightarrow> compile_wrapped h hp w = (evs, Inl e) \<Longrightarrow>
   forward h hp w args kws = (w, evs, Inl e)"
  by (simp add: forward_def)






text \<open>
  A compilation that raises leaves the wrapper as it was, so the next call compiles
  again: on \<open>failing_host\<close> two calls make two compilation calls and the wrapper stays
  uncompiled.
\<close>

lemma forward_retries_failed_compile:
  "forward_calls failing_host demo_heap demo_wrapper [([], Map.empty), ([], Map.empty)]
     = [(demo_wrapper,
         [EvTorchCompile (PyCallable 1) (PyStr ''inductor'') (cells demo_heap 0)],
         Inl (RuntimeError ''compilation failed'')),
        (demo_wrapper,
         [EvTorchCompile (PyCallable 1) (PyStr ''inductor'') (cells demo_heap 0)],
         Inl (RuntimeError ''compilation failed''))]"
  by (simp add: forward_def compile_wrapped_def is_compiled_def demo_wrapper_def failing_host_def
      demo_host_def demo_heap_def Let_def)



text \<open>
  Claim C2. After \<^verbatim>\<open>set_compiler_fn(fn)\<close> on a wrapper that has not been compiled, the
  first call of \<^verbatim>\<open>forward\<close> calls \<open>fn\<close> exactly once, on the object wrapped so far, and
  never calls the host compilation engine. What \<open>fn\<close> returns becomes the wrapped
  object. The backend and the options play no part: with any other backend, options
  address and store, the events, the outcome and the new wrapped object are the same.
\<close>

theorem compiler_fn_supersedes:
  assumes "\<not> is_compiled w"
  shows "filter is_compile_event (fst (snd (forward h hp (set_compiler_fn w fn) args kws)))
            = [EvCompilerFn fn (wrapped w)]
    \<and> filter is_torch_compile_event (fst (snd (forward h hp (set_compiler_fn w fn) args kws))) = []
    \<and> (\<forall>m. call h (PyCallable fn) [wrapped w] Map.empty = Inr m \<longrightarrow>
          wrapped (fst (forward h hp (set_compiler_fn w fn) args kws)) = m
          \<and> is_compiled (fst (forward h hp (set_compiler_fn w fn) args kws)))
    \<and> snd (forward h hp' (set_compiler_fn (w\<lparr>p_backend := b, p_compile_kwargs := a\<rparr>) fn) args kws)
         = snd (forward h hp (set_compiler_fn w fn) args kws)
    \<and> wrapped (fst (forward h hp' (set_compiler_fn (w\<lparr>p_backend := b, p_compile_kwargs := a\<rparr>) fn) args kws))
         = wrapped (fst (forward h hp (set_compiler_fn w fn) args kws))"
  using assms
  by (cases "call h (PyCallable fn) [wrapped w] Map.empty")
     (simp_all add: forward_def compile_wrapped_def set_compiler_fn_def is_compiled_def)

theorem compiler_fn_supersedes_witness:
  "\<not> is_compiled demo_wrapper
   \<and> forward demo_host demo_heap (set_compiler_fn demo_wrapper 9) [PyInt 1, PyInt 2] Map.empty
       = (demo_wrapper\<lparr>wrapped := PyCallable 3, p_is_compiled := True, p_compiler_fn := Some 9\<rparr>,
          [EvCompilerFn 9 (PyCallable 1), EvInvoke (PyCallable 3) [PyInt 1, PyInt 2] Map.empty],
          Inr (PyInt 2))
   \<and> filter is_torch_compile_event
        (fst (snd (forward demo_host demo_heap (set_compiler_fn demo_wrapper 9) [PyInt 1, PyInt 2] Map.empty)))
       = []
   \<and> wrapped (fst (forward demo_host demo_heap (set_compiler_fn demo_wrapper 9) [PyInt 1, PyInt 2] Map.empty))
       = PyCallable 3"
proof -
  have a: "\<not> is_compiled demo_wrapper"
    by (simp add: is_compiled_def demo_wrapper_def)
  have c: "call demo_host (PyCallable 9) [wrapped demo_wrapper] Map.empty = Inr (PyCallable 3)"
    by (simp add: demo_host_def)
  have f: "forward demo_host demo_heap (set_compiler_fn demo_wrapper 9) [PyInt 1, PyInt 2] Map.empty
       = (demo_wrapper\<lparr>wrapped := PyCallable 3, p_is_compiled := True, p_compiler_fn := Some 9\<rparr>,
          [EvCompilerFn 9 (PyCallable 1), EvInvoke (PyCallable 3) [PyInt 1, PyInt 2] Map.empty],
          Inr (PyInt 2))"
    by (simp add: forward_def compile_wrapped_def set_compiler_fn_def is_compiled_def
        demo_wrapper_def demo_host_def)
  from compiler_fn_supersedes
      [where w = demo_wrapper and h = demo_host and hp = demo_heap and fn = 9
         and args = "[PyInt 1, PyInt 2]" and kws = Map.empty and hp' = demo_heap
         and b = "PyStr ''inductor''" and a = 0] a c f
  show ?thesis by simp
qed

section \<open>Attribute access\<close>

text \<open>
  Claim C8. An attribute name that the normal lookup does not find on the wrapper is
  answered by \<^verbatim>\<open>__getattr__\<close>, which reads it from the object wrapped at that moment. A
  new wrapper wraps the original module and is not compiled. When a call of \<^verbatim>\<open>forward\<close>
  turns \<^verbatim>\<open>is_compiled\<close> true, the wrapped object is what the compilation returned; a
  compiled wrapper is left unchanged by \<^verbatim>\<open>forward\<close>, so it stays that object.
\<close>

theorem getattr_forwards:
  "(own_attr h w name = None \<longrightarrow> wrapper_getattr h w name = getattr h (wrapped w) name)
   \<and> CompiledModuleWrapper_getattr h w name = getattr h (wrapped w) name
   \<and> (CompiledModuleWrapper_init h module (Some cfg) = Inr w0 \<longrightarrow>
        wrapped w0 = module \<and> \<not> is_compiled w0)
   \<and> (\<not> is_compiled w \<longrightarrow> is_compiled (fst (forward h hp w args kws)) \<longrightarrow>
        snd (compile_wrapped h hp w) = Inr (wrapped (fst (forward h hp w args kws))))
   \<and> (is_compiled w \<longrightarrow> fst (forward h hp w args kws) = w)"
  by (auto simp: wrapper_getattr_def CompiledModuleWrapper_getattr_def
      CompiledModuleWrapper_init_def forward_def is_compiled_def
      split: option.splits sum.splits prod.splits if_splits)

theorem getattr_forwards_witness:
  "wrapper_getattr demo_host demo_wrapper ''weight'' = Inr (PyInt 10)
   \<and> wrapper_getattr demo_host (fst (forward demo_host demo_heap demo_wrapper [] Map.empty)) ''weight''
       = Inr (PyInt 20)
   \<and> wrapped (fst (forward demo_host demo_heap demo_wrapper [] Map.empty)) = PyCallable 2
   \<and> wrapper_getattr demo_host demo_wrapper ''is_compiled'' = Inr (PyBool False)"
proof -
  let ?w = "fst (forward demo_host demo_heap demo_wrapper [] Map.empty)"
  have f: "forward demo_host demo_heap demo_wrapper [] Map.empty
       = (demo_wrapper\<lparr>wrapped := PyCallable 2, p_is_compiled := True\<rparr>,
          [EvTorchCompile (PyCallable 1) (PyStr ''inductor'') [''mode'' \<mapsto> PyStr ''max-autotune''],
           EvInvoke (PyCallable 2) [] Map.empty],
          Inr (PyInt 0))"
    by (simp add: forward_def compile_wrapped_def is_compiled_def demo_wrapper_def demo_host_def
        demo_heap_def)
  have a: "own_attr demo_host demo_wrapper ''weight'' = None"
    by (simp add: own_attr_def method_names_def demo_host_def)
  have b: "own_attr demo_host ?w ''weight'' = None"
    by (simp add: own_attr_def method_names_def demo_host_def)
  have c: "\<not> is_compiled demo_wrapper"
    by (simp add: is_compiled_def demo_wrapper_def)
  have c': "is_compiled ?w"
    by (simp add: f is_compiled_def)
  have d: "CompiledModuleWrapper_init demo_host (PyCallable 1) (Some demo_config) = Inr demo_wrapper"
    by (simp add: CompiledModuleWrapper_init_def is_compile_supported_def demo_host_def
        demo_config_def demo_wrapper_def)
  have e: "wrapper_getattr demo_host demo_wrapper ''is_compiled'' = Inr (PyBool False)"
    by (simp add: wrapper_getattr_def own_attr_def demo_wrapper_def)
  have g1: "wrapper_getattr demo_host demo_wrapper ''weight''
              = getattr demo_host (wrapped demo_wrapper) ''weight''"
    using getattr_forwards [of demo_host demo_wrapper "''weight''" "PyCallable 1" demo_config
      demo_wrapper demo_heap "[]" Map.empty] a by blast
  have g2: "wrapper_getattr demo_host ?w ''weight'' = getattr demo_host (wrapped ?w) ''weight''"
    using getattr_forwards [of demo_host ?w "''weight''" "PyCallable 1" demo_config
      demo_wrapper demo_heap "[]" Map.empty] b by blast
  have g3: "snd (compile_wrapped demo_host demo_heap demo_wrapper) = Inr (wrapped ?w)"
    using getattr_forwards [of demo_host demo_wrapper "''weight''" "PyCallable 1" demo_config
      demo_wrapper demo_heap "[]" Map.empty] c c' by blast
  have w: "wrapped ?w = PyCallable 2" "wrapped demo_wrapper = PyCallable 1"
    by (simp_all add: f) (simp add: demo_wrapper_def)
  have v: "getattr demo_host (PyCallable 1) ''weight'' = Inr (PyInt 10)"
    "getattr demo_host (PyCallable 2) ''weight'' = Inr (PyInt 20)"
    by (simp_all add: demo_host_def)
  from g1 g2 g3 w v e show ?thesis by simp
qed

section \<open>Setting the options\<close>

lemma set_backend_fields:
  "set_backend h w v = Inr w' \<Longrightarrow>
   p_compile_kwargs w' = p_compile_kwargs w \<and> wrapped w' = wrapped w
   \<and> p_is_compiled w' = p_is_compiled w \<and> p_compiler_fn w' = p_compiler_fn w"
  by (cases v) (auto simp: set_backend_def split: sum.splits if_splits)

lemma demo_resolves: "get_backend_fn demo_host ''pkg.mod.fn'' = Inr (PyCallable 7)"
proof -
  have "module_name_of ''pkg.mod.fn'' = ''pkg.mod''" "fn_name_of ''pkg.mod.fn'' = ''fn''"
    by (simp_all add: module_name_of_def fn_name_of_def)
  then show ?thesis by (simp add: get_backend_fn_def demo_host_def)
qed

lemma demo_set_kwargs:
  "set_torch_compile_kwargs demo_host demo_heap demo_wrapper 1
     = Inr (demo_wrapper\<lparr>p_backend := PyCallable 7\<rparr>,
            dict_update 0 1 (dict_del 1 ''backend'' demo_heap))"
  by (simp add: set_torch_compile_kwargs_def set_backend_def demo_resolves demo_heap_def
      demo_wrapper_def)

lemma demo_refuses:
  "set_torch_compile_kwargs demo_host refusing_heap demo_wrapper 1
     = Inl (ValueError ''backend for torch.compile must be a string or Callable: object'')"
  by (simp add: set_torch_compile_kwargs_def set_backend_def invalid_backend_def
      refusing_heap_def demo_host_def)

lemma demo_aliased:
  "set_torch_compile_kwargs demo_host aliased_heap demo_wrapper 0
     = Inr (demo_wrapper\<lparr>p_backend := PyCallable 7\<rparr>,
            dict_update 0 0 (dict_del 0 ''backend'' aliased_heap))"
  by (simp add: set_torch_compile_kwargs_def set_backend_def aliased_heap_def demo_wrapper_def)

text \<open>
  The example \<^verbatim>\<open>{"backend": "x", "foo": 1}\<close>: the name has no dot, so its module path is
  empty, the import raises a \<^verbatim>\<open>ValueError\<close> that the resolver does not catch, and the call
  ends with it.
\<close>

lemma spec_example_raises:
  "set_torch_compile_kwargs demo_host example_heap demo_wrapper 1
     = Inl (ValueError ''Empty module name'')"
proof -
  have "module_name_of ''x'' = []"
    by (simp add: module_name_of_def)
  then have "get_backend_fn demo_host ''x'' = Inl (ValueError ''Empty module name'')"
    by (simp add: get_backend_fn_def demo_host_def)
  then show ?thesis
    by (simp add: set_torch_compile_kwargs_def set_backend_def example_heap_def)
qed

text \<open>
  Two inputs on which the stored options are not the previous ones merged with the
  remaining entries. With \<^verbatim>\<open>{"backend": 5, "foo": 2}\<close> the call raises what \<^verbatim>\<open>set_backend\<close>
  raises and nothing has been written: the stored options have no \<^verbatim>\<open>"foo"\<close>, the merge
  would. With the stored options passed as the mapping, they lose their \<^verbatim>\<open>"backend"\<close> key,
  which the merge would keep.
\<close>

theorem set_torch_compile_kwargs_backend_counterexample:
  "cells refusing_heap 1 ''backend'' = Some (PyInt 5)
   \<and> set_torch_compile_kwargs demo_host refusing_heap demo_wrapper 1
       = Inl (ValueError ''backend for torch.compile must be a string or Callable: object'')
   \<and> cells refusing_heap (torch_compile_kwargs demo_wrapper) ''foo'' = None
   \<and> (cells refusing_heap (torch_compile_kwargs demo_wrapper)
         ++ (cells refusing_heap 1)(''backend'' := None)) ''foo'' = Some (PyInt 2)
   \<and> cells aliased_heap 0 ''backend'' = Some (PyCallable 7)
   \<and> torch_compile_kwargs demo_wrapper = 0
   \<and> set_torch_compile_kwargs demo_host aliased_heap demo_wrapper 0
       = Inr (demo_wrapper\<lparr>p_backend := PyCallable 7\<rparr>,
              dict_update 0 0 (dict_del 0 ''backend'' aliased_heap))
   \<and> cells (dict_update 0 0 (dict_del 0 ''backend'' aliased_heap)) 0 ''backend'' = None
   \<and> (cells aliased_heap 0 ++ (cells aliased_heap 0)(''backend'' := None)) ''backend''
       = Some (PyCallable 7)"
proof -
  have stored: "torch_compile_kwargs demo_wrapper = 0"
    by (simp add: torch_compile_kwargs_def demo_wrapper_def)
  have refused: "cells refusing_heap 1 ''backend'' = Some (PyInt 5)"
    "cells refusing_heap (torch_compile_kwargs demo_wrapper) ''foo'' = None"
    "(cells refusing_heap (torch_compile_kwargs demo_wrapper)
        ++ (cells refusing_heap 1)(''backend'' := None)) ''foo'' = Some (PyInt 2)"
    by (simp_all add: stored refusing_heap_def map_add_def)
  have aliased: "cells aliased_heap 0 ''backend'' = Some (PyCallable 7)"
    "cells (dict_update 0 0 (dict_del 0 ''backend'' aliased_heap)) 0 ''backend'' = None"
    "(cells aliased_heap 0 ++ (cells aliased_heap 0)(''backend'' := None)) ''backend''
       = Some (PyCallable 7)"
    by (simp_all add: aliased_heap_def dict_update_def dict_del_def map_add_def)
  from stored refused aliased demo_refuses demo_aliased show ?thesis by blast
qed

text \<open>
  Claim C3, as amended. Let the passed mapping hold a \<^verbatim>\<open>"backend"\<close> entry. When
  \<^verbatim>\<open>set_backend\<close> raises for that entry, \<^verbatim>\<open>set_torch_compile_kwargs\<close> raises the same error
  before anything is written. When \<^verbatim>\<open>set_backend\<close> accepts it, the call returns, the
  wrapper is the one \<^verbatim>\<open>set_backend\<close> gives for that entry, and the entry is gone from the
  passed mapping; if moreover the passed mapping is an object other than the stored
  options, the stored options are the previous ones merged with the passed entries other
  than \<^verbatim>\<open>"backend"\<close>, and whether they hold a \<^verbatim>\<open>"backend"\<close> key is what it was before the
  call.
\<close>

theorem set_torch_compile_kwargs_backend:
  assumes "cells hp kw ''backend'' = Some b"
  shows "case set_backend h w b of
           Inl e \<Rightarrow> set_torch_compile_kwargs h hp w kw = Inl e
         | Inr w' \<Rightarrow>
             (case set_torch_compile_kwargs h hp w kw of
                Inl e \<Rightarrow> False
              | Inr (w'', hp') \<Rightarrow>
                  w'' = w'
                  \<and> torch_compile_kwargs w'' = torch_compile_kwargs w
                  \<and> cells hp' kw ''backend'' = None
                  \<and> (kw \<noteq> torch_compile_kwargs w \<longrightarrow>
                       cells hp' (torch_compile_kwargs w'')
                         = cells hp (torch_compile_kwargs w) ++ (cells hp kw)(''backend'' := None)
                       \<and> cells hp' (torch_compile_kwargs w'') ''backend''
                           = cells hp (torch_compile_kwargs w) ''backend''))"
proof (cases "set_backend h w b")
  case (Inl e)
  with assms show ?thesis by (simp add: set_torch_compile_kwargs_def)
next
  case (Inr w')
  from set_backend_fields [OF Inr] have k: "p_compile_kwargs w' = p_compile_kwargs w" by simp
  from assms Inr k show ?thesis
    by (simp add: set_torch_compile_kwargs_def dict_update_def dict_del_def
        torch_compile_kwargs_def map_add_def)
qed

theorem set_torch_compile_kwargs_backend_witness:
  "(case set_torch_compile_kwargs demo_host demo_heap demo_wrapper 1 of
      Inl e \<Rightarrow> False
    | Inr (w, hp) \<Rightarrow>
        backend_prop w = PyCallable 7
        \<and> cells hp 1 ''backend'' = None
        \<and> cells hp (torch_compile_kwargs w) ''foo'' = Some (PyInt 1)
        \<and> cells hp (torch_compile_kwargs w) ''mode'' = Some (PyStr ''max-autotune'')
        \<and> cells hp (torch_compile_kwargs w) ''backend'' = None)
   \<and> set_torch_compile_kwargs demo_host refusing_heap demo_wrapper 1
       = Inl (ValueError ''backend for torch.compile must be a string or Callable: object'')"
proof -
  have a: "cells demo_heap 1 ''backend'' = Some (PyStr ''pkg.mod.fn'')"
    by (simp add: demo_heap_def)
  have b: "set_backend demo_host demo_wrapper (PyStr ''pkg.mod.fn'')
             = Inr (demo_wrapper\<lparr>p_backend := PyCallable 7\<rparr>)"
    by (simp add: set_backend_def demo_resolves)
  have c: "1 \<noteq> torch_compile_kwargs demo_wrapper"
    by (simp add: torch_compile_kwargs_def demo_wrapper_def)
  have a': "cells refusing_heap 1 ''backend'' = Some (PyInt 5)"
    by (simp add: refusing_heap_def)
  have b': "set_backend demo_host demo_wrapper (PyInt 5)
              = Inl (ValueError ''backend for torch.compile must be a string or Callable: object'')"
    by (simp add: set_backend_def invalid_backend_def demo_host_def)
  have first: "case set_torch_compile_kwargs demo_host demo_heap demo_wrapper 1 of
      Inl e \<Rightarrow> False
    | Inr (w, hp) \<Rightarrow>
        backend_prop w = PyCallable 7
        \<and> cells hp 1 ''backend'' = None
        \<and> cells hp (torch_compile_kwargs w) ''foo'' = Some (PyInt 1)
        \<and> cells hp (torch_compile_kwargs w) ''mode'' = Some (PyStr ''max-autotune'')
        \<and> cells hp (torch_compile_kwargs w) ''backend'' = None"
    using set_torch_compile_kwargs_backend [OF a, of demo_host demo_wrapper] c
    unfolding b demo_set_kwargs
    by (simp add: backend_prop_def torch_compile_kwargs_def dict_update_def dict_del_def
        demo_wrapper_def demo_heap_def map_add_def)
  have second: "set_torch_compile_kwargs demo_host refusing_heap demo_wrapper 1
       = Inl (ValueError ''backend for torch.compile must be a string or Callable: object'')"
    using set_torch_compile_kwargs_backend [OF a', of demo_host demo_wrapper]
    unfolding b' by simp
  from first second show ?thesis by simp
qed



end
